theory Spec2Isabelle
  imports Complex_Main
begin

section \<open>Data model of \<^verbatim>\<open>src/App.js\<close>\<close>

text \<open>
  A JSON object received from the backend. The backend answers either with a location
  (\<^verbatim>\<open>_id\<close>, \<^verbatim>\<open>username\<close>, \<^verbatim>\<open>latitude\<close>, \<^verbatim>\<open>longitude\<close>, \<^verbatim>\<open>timestamp\<close>) or with
  \<^verbatim>\<open>{error: string}\<close>; the code tells the two apart by the truthiness of \<^verbatim>\<open>data.error\<close>
  and stores the very same object in the collection, so one record carries all fields and
  \<open>loc_error\<close> is \<open>None\<close> when the property is absent. The field \<^verbatim>\<open>_id\<close> is \<open>loc_id\<close> and
  the location's \<^verbatim>\<open>username\<close> is \<open>loc_username\<close> (the component state has a \<^verbatim>\<open>username\<close>
  of its own). Coordinates are only stored, copied and displayed, never computed with, so
  a number is a \<open>real\<close> and the literals of the source are the same decimal numerals.
\<close>

type_synonym timestamp = string

record location =
  loc_error :: "string option"
  loc_id :: string
  loc_username :: string
  latitude :: real
  longitude :: real
  timestamp :: timestamp

text \<open>The five \<^verbatim>\<open>useState\<close> cells of \<^verbatim>\<open>App\<close>.\<close>

record app_state =
  username :: string
  locations :: "location list"
  shareUrl :: string
  error :: string
  isLoading :: bool

definition initial_state :: app_state where
  "initial_state =
     \<lparr>username = [], locations = [], shareUrl = [], error = [], isLoading = True\<rparr>"

text \<open>
  What the page address gives: \<^verbatim>\<open>urlParams.get('locationId')\<close> (\<open>None\<close> for \<^verbatim>\<open>null\<close>) and
  \<^verbatim>\<open>window.location.origin\<close>.
\<close>

record env =
  locationId :: "string option"
  origin :: string

text \<open>
  An awaited request either resolves with the parsed JSON body or throws inside the
  \<^verbatim>\<open>try\<close> block / rejects the promise chain (network failure, body that is not JSON).
\<close>

datatype 'a response = Throws | Body 'a

text \<open>\<^verbatim>\<open>getCurrentPosition\<close> calls exactly one of its two callbacks.\<close>

datatype geo_result = Position real real | GeoError string

text \<open>
  Everything outside the component that the handlers consult: \<^verbatim>\<open>navigator.geolocation\<close>
  (\<open>None\<close> when the property is falsy), the three backend endpoints and the clock read
  by \<^verbatim>\<open>new Date()\<close>.
\<close>

record world =
  geolocation :: "geo_result option"
  get_location :: "string \<Rightarrow> location response"
  get_locations :: "location list response"
  post_location :: "string \<Rightarrow> real \<Rightarrow> real \<Rightarrow> location response"
  now :: timestamp

text \<open>Requests and device calls a handler issues, in order.\<close>

datatype io_action =
    GetLocation string
  | GetLocations
  | GetCurrentPosition
  | PostLocation string real real

section \<open>JavaScript truthiness\<close>

text \<open>A string is truthy when it is not empty; \<^verbatim>\<open>null\<close>/\<^verbatim>\<open>undefined\<close> are falsy.\<close>

fun truthy :: "string option \<Rightarrow> bool" where
  "truthy None = False"
| "truthy (Some []) = False"
| "truthy (Some (c # cs)) = True"

section \<open>Snapshot fetch (\<^verbatim>\<open>fetchLocations\<close>, lines 42-73)\<close>

definition fallback :: "timestamp \<Rightarrow> location" where
  "fallback t =
     \<lparr>loc_error = None, loc_id = ''fallback'', loc_username = ''Fallback User'',
      latitude = 51.505, longitude = - 0.09, timestamp = t\<rparr>"

definition fetch_error_msg :: string where
  "fetch_error_msg =
     ''Failed to fetch locations. Is the backend running at http://localhost:5000?''"

text \<open>The \<^verbatim>\<open>catch\<close> block.\<close>

definition fetch_catch :: "world \<Rightarrow> app_state \<Rightarrow> app_state" where
  "fetch_catch w s = s\<lparr>error := fetch_error_msg, locations := [fallback (now w)]\<rparr>"

text \<open>The \<^verbatim>\<open>try\<close> block: one branch per mode, then per outcome of the request.\<close>

definition fetch_try :: "env \<Rightarrow> world \<Rightarrow> app_state \<Rightarrow> app_state" where
  "fetch_try e w s =
     (case locationId e of
        Some (c # cs) \<Rightarrow>
          (case get_location w (c # cs) of
             Throws \<Rightarrow> fetch_catch w s
           | Body data \<Rightarrow>
               (case loc_error data of
                  Some (d # ds) \<Rightarrow> s\<lparr>error := d # ds, locations := []\<rparr>
                | _ \<Rightarrow> s\<lparr>locations := [data]\<rparr>))
      | _ \<Rightarrow>
          (case get_locations w of
             Throws \<Rightarrow> fetch_catch w s
           | Body data \<Rightarrow> s\<lparr>locations := data\<rparr>))"

text \<open>The \<^verbatim>\<open>finally\<close> block runs on every path.\<close>

definition fetchLocations :: "env \<Rightarrow> world \<Rightarrow> app_state \<Rightarrow> app_state" where
  "fetchLocations e w s = (fetch_try e w s)\<lparr>isLoading := False\<rparr>"

section \<open>Stream handlers (lines 78-87)\<close>

definition on_newLocation :: "env \<Rightarrow> location \<Rightarrow> app_state \<Rightarrow> app_state" where
  "on_newLocation e loc s =
     (if \<not> truthy (locationId e) then s\<lparr>locations := locations s @ [loc]\<rparr> else s)"

definition connect_error_msg :: string where
  "connect_error_msg =
     ''Cannot connect to backend. Please ensure the server is running on http://localhost:5000''"

definition on_connect_error :: "app_state \<Rightarrow> app_state" where
  "on_connect_error s = s\<lparr>error := connect_error_msg\<rparr>"

section \<open>Sharing (\<^verbatim>\<open>shareLocation\<close>, lines 93-135)\<close>

text \<open>
  Every path writes the state inside one callback, so a share is one transition. The
  second component lists the device and backend calls made on the way.
\<close>

definition share_then :: "env \<Rightarrow> location \<Rightarrow> app_state \<Rightarrow> app_state" where
  "share_then e data s =
     (case loc_error data of
        Some (d # ds) \<Rightarrow> s\<lparr>error := d # ds\<rparr>
      | _ \<Rightarrow>
          (let url = origin e @ ''?locationId='' @ loc_id data;
               s1 = s\<lparr>shareUrl := url\<rparr>;
               s2 = (if \<not> truthy (locationId e)
                     then s1\<lparr>locations := locations s1 @ [data]\<rparr> else s1)
           in s2\<lparr>error := []\<rparr>))"

definition shareLocation :: "env \<Rightarrow> world \<Rightarrow> app_state \<Rightarrow> app_state \<times> io_action list" where
  "shareLocation e w s =
     (if username s = [] then (s\<lparr>error := ''Please enter a username''\<rparr>, [])
      else
        (case geolocation w of
           None \<Rightarrow> (s\<lparr>error := ''Geolocation is not supported by this browser.''\<rparr>, [])
         | Some (GeoError m) \<Rightarrow>
             (s\<lparr>error := ''Error getting location: '' @ m\<rparr>, [GetCurrentPosition])
         | Some (Position la lo) \<Rightarrow>
             (case post_location w (username s) la lo of
                Throws \<Rightarrow>
                  (s\<lparr>error := ''Error sharing location. Is the backend running?''\<rparr>,
                   [GetCurrentPosition, PostLocation (username s) la lo])
              | Body data \<Rightarrow>
                  (share_then e data s,
                   [GetCurrentPosition, PostLocation (username s) la lo]))))"

section \<open>Derived viewport and rendering (lines 147-223)\<close>

definition mapCenter :: "location list \<Rightarrow> real \<times> real" where
  "mapCenter locs =
     (if length locs > 0
      then (latitude (locs ! (length locs - 1)), longitude (locs ! (length locs - 1)))
      else (51.505, - 0.09))"

record marker =
  marker_key :: string
  marker_position :: "real \<times> real"
  marker_popup :: string

definition to_marker :: "location \<Rightarrow> marker" where
  "to_marker loc =
     \<lparr>marker_key = loc_id loc, marker_position = (latitude loc, longitude loc),
      marker_popup = loc_username loc\<rparr>"

text \<open>
  The page that is returned when neither early return fires: the input group (shown
  without a \<^verbatim>\<open>locationId\<close>), the share link box, the map with its centre and markers, and
  the list of shared locations.
\<close>

record page =
  input_group :: "string option"
  share_box :: "string option"
  map_center :: "real \<times> real"
  map_markers :: "marker list"
  list_items :: "location list"

datatype view = LoadingView | ErrorView string | PageView page

definition render :: "env \<Rightarrow> app_state \<Rightarrow> view" where
  "render e s =
     (if isLoading s then LoadingView
      else if error s \<noteq> [] then ErrorView (error s)
      else PageView
        \<lparr>input_group = (if \<not> truthy (locationId e) then Some (username s) else None),
         share_box = (if shareUrl s \<noteq> [] \<and> \<not> truthy (locationId e)
                      then Some (shareUrl s) else None),
         map_center = mapCenter (locations s),
         map_markers = map to_marker (locations s),
         list_items = locations s\<rparr>)"

section \<open>Sequences of callbacks\<close>

datatype event =
    FetchDone world
  | NewLocation location
  | ConnectError
  | SetUsername string
  | ShareClick world

fun step :: "env \<Rightarrow> app_state \<Rightarrow> event \<Rightarrow> app_state" where
  "step e s (FetchDone w) = fetchLocations e w s"
| "step e s (NewLocation loc) = on_newLocation e loc s"
| "step e s ConnectError = on_connect_error s"
| "step e s (SetUsername u) = s\<lparr>username := u\<rparr>"
| "step e s (ShareClick w) = fst (shareLocation e w s)"

definition run :: "env \<Rightarrow> event list \<Rightarrow> app_state \<Rightarrow> app_state" where
  "run e evs s = foldl (step e) s evs"

section \<open>Conditions named by the properties\<close>

text \<open>The request of the snapshot fetch, whichever the mode selects, throws.\<close>

definition fetch_throws :: "env \<Rightarrow> world \<Rightarrow> bool" where
  "fetch_throws e w =
     (case locationId e of
        Some (c # cs) \<Rightarrow> (case get_location w (c # cs) of Throws \<Rightarrow> True | Body _ \<Rightarrow> False)
      | _ \<Rightarrow> (case get_locations w of Throws \<Rightarrow> True | Body _ \<Rightarrow> False))"

text \<open>
  The record a callback hands to the collection, if any: the payload of a \<^verbatim>\<open>newLocation\<close>
  event, or the body of a share that went through (a name was entered, the device gave a
  position, the backend answered without a truthy \<^verbatim>\<open>error\<close>). \<open>u\<close> is the current
  \<^verbatim>\<open>username\<close>.
\<close>

fun upsert_record :: "string \<Rightarrow> event \<Rightarrow> location option" where
  "upsert_record u (NewLocation loc) = Some loc"
| "upsert_record u (ShareClick w) =
     (if u = [] then None
      else
        (case geolocation w of
           Some (Position la lo) \<Rightarrow>
             (case post_location w u la lo of
                Body data \<Rightarrow> (if truthy (loc_error data) then None else Some data)
              | Throws \<Rightarrow> None)
         | _ \<Rightarrow> None))"
| "upsert_record u _ = None"

section \<open>Concrete inputs\<close>

definition env_all :: env where
  "env_all = \<lparr>locationId = None, origin = ''http://localhost:3000''\<rparr>"

definition env_single :: env where
  "env_single = \<lparr>locationId = Some ''abc'', origin = ''http://localhost:3000''\<rparr>"

definition loc_a :: location where
  "loc_a = \<lparr>loc_error = None, loc_id = ''a'', loc_username = ''ann'',
            latitude = 1, longitude = 2, timestamp = ''2024-05-01T10:00:00.000Z''\<rparr>"

definition loc_a2 :: location where
  "loc_a2 = \<lparr>loc_error = None, loc_id = ''a'', loc_username = ''ann'',
             latitude = 9, longitude = 9, timestamp = ''2024-05-01T10:05:00.000Z''\<rparr>"

definition loc_b :: location where
  "loc_b = \<lparr>loc_error = None, loc_id = ''b'', loc_username = ''bob'',
            latitude = 3, longitude = 4, timestamp = ''2024-05-01T09:00:00.000Z''\<rparr>"

definition created :: "string \<Rightarrow> real \<Rightarrow> real \<Rightarrow> location" where
  "created u la lo = \<lparr>loc_error = None, loc_id = ''xyz'', loc_username = u,
            latitude = la, longitude = lo, timestamp = ''2024-05-01T11:00:00.000Z''\<rparr>"

text \<open>An error body: only \<^verbatim>\<open>error\<close> is read from it.\<close>

definition error_body :: "string \<Rightarrow> location" where
  "error_body m = \<lparr>loc_error = Some m, loc_id = [], loc_username = [],
            latitude = 0, longitude = 0, timestamp = []\<rparr>"

definition world_ok :: world where
  "world_ok =
     \<lparr>geolocation = Some (Position 48.85 2.35),
      get_location = (\<lambda>i. Body loc_a),
      get_locations = Body [loc_a],
      post_location = (\<lambda>u la lo. Body (created u la lo)),
      now = ''2024-05-01T12:00:00.000Z''\<rparr>"

definition world_down :: world where
  "world_down =
     \<lparr>geolocation = Some (Position 48.85 2.35),
      get_location = (\<lambda>i. Throws),
      get_locations = Throws,
      post_location = (\<lambda>u la lo. Throws),
      now = ''2024-05-01T12:00:00.000Z''\<rparr>"

definition world_not_found :: world where
  "world_not_found = world_ok\<lparr>get_location := (\<lambda>i. Body (error_body ''not found''))\<rparr>"

definition world_no_geo :: world where
  "world_no_geo = world_ok\<lparr>geolocation := None\<rparr>"

definition world_geo_denied :: world where
  "world_geo_denied = world_ok\<lparr>geolocation := Some (GeoError ''User denied Geolocation'')\<rparr>"

definition world_rejected :: world where
  "world_rejected =
     world_ok\<lparr>post_location := (\<lambda>u la lo. Body (error_body ''username is required''))\<rparr>"

text \<open>The state once the snapshot \<^verbatim>\<open>[a]\<close> is loaded and a name is typed.\<close>

definition loaded :: app_state where
  "loaded = (fetchLocations env_all world_ok initial_state)\<lparr>username := ''ann''\<rparr>"

section \<open>Snapshot loading\<close>

lemma truthy_iff: "truthy x \<longleftrightarrow> (\<exists>c cs. x = Some (c # cs))"
  by (cases x rule: truthy.cases) auto

text \<open>
  C2. When the request of the snapshot fetch throws (in either mode), the collection
  becomes exactly the one placeholder record with latitude 51.505 and longitude -0.09,
  the error message is set, and the rendered page is that error message.
\<close>

theorem snapshot_transport_failure_fallback:
  assumes "fetch_throws e w"
  shows "locations (fetchLocations e w s) =
           [\<lparr>loc_error = None, loc_id = ''fallback'', loc_username = ''Fallback User'',
             latitude = 51.505, longitude = - 0.09, timestamp = now w\<rparr>]
         \<and> error (fetchLocations e w s) = fetch_error_msg
         \<and> render e (fetchLocations e w s) = ErrorView fetch_error_msg"
  using assms
  by (auto simp: fetch_throws_def fetchLocations_def fetch_try_def fetch_catch_def
      fallback_def render_def fetch_error_msg_def
      split: option.splits list.splits response.splits)

theorem snapshot_transport_failure_fallback_witness:
  "fetch_throws env_all world_down \<and> fetch_throws env_single world_down
   \<and> map (\<lambda>l. (latitude l, longitude l))
        (locations (fetchLocations env_all world_down initial_state)) = [(51.505, - 0.09)]
   \<and> map (\<lambda>l. (latitude l, longitude l))
        (locations (fetchLocations env_single world_down initial_state)) = [(51.505, - 0.09)]
   \<and> render env_all (fetchLocations env_all world_down initial_state)
       = ErrorView fetch_error_msg"
proof -
  have a: "fetch_throws env_all world_down"
    by (simp add: fetch_throws_def env_all_def world_down_def)
  have b: "fetch_throws env_single world_down"
    by (simp add: fetch_throws_def env_single_def world_down_def)
  show ?thesis
    using a b snapshot_transport_failure_fallback [OF a, of initial_state]
      snapshot_transport_failure_fallback [OF b, of initial_state]
    by simp
qed

text \<open>
  C3. In single-location mode, when the backend answers the fetch with a body whose
  \<^verbatim>\<open>error\<close> is a non-empty string (such as "not found"), the collection is set empty and
  that string becomes the error message; the placeholder record is not in the collection.
\<close>

theorem single_not_found_empties:
  assumes "locationId e = Some (c # cs)"
    and "get_location w (c # cs) = Body data"
    and "loc_error data = Some (d # ds)"
  shows "locations (fetchLocations e w s) = []
         \<and> error (fetchLocations e w s) = d # ds
         \<and> fallback (now w) \<notin> set (locations (fetchLocations e w s))
         \<and> render e (fetchLocations e w s) = ErrorView (d # ds)"
  using assms
  by (simp add: fetchLocations_def fetch_try_def render_def)

theorem single_not_found_empties_witness:
  "locationId env_single = Some ''abc''
   \<and> get_location world_not_found ''abc'' = Body (error_body ''not found'')
   \<and> loc_error (error_body ''not found'') = Some ''not found''
   \<and> locations (fetchLocations env_single world_not_found initial_state) = []
   \<and> error (fetchLocations env_single world_not_found initial_state) = ''not found''"
proof -
  have a: "locationId env_single = Some (CHR ''a'' # ''bc'')"
    by (simp add: env_single_def)
  have b: "get_location world_not_found (CHR ''a'' # ''bc'') = Body (error_body ''not found'')"
    by (simp add: world_not_found_def world_ok_def)
  have c: "loc_error (error_body ''not found'') = Some (CHR ''n'' # ''ot found'')"
    by (simp add: error_body_def)
  show ?thesis
    using a b c single_not_found_empties [OF a b c, of initial_state]
    by simp
qed

section \<open>The collection under stream events and shares\<close>

lemma step_upsert:
  assumes "\<not> truthy (locationId e)" and "upsert_record (username s) ev = Some r"
  shows "locations (step e s ev) = locations s @ [r] \<and> username (step e s ev) = username s"
proof (cases ev)
  case (NewLocation loc)
  with assms show ?thesis by (simp add: on_newLocation_def)
next
  case (ShareClick w)
  with assms show ?thesis
    by (auto simp: shareLocation_def share_then_def Let_def truthy_iff
        split: if_splits option.splits geo_result.splits response.splits list.splits)
qed (use assms in simp_all)

text \<open>
  C1 (as the code has it). In all-locations mode, after any sequence of stream events and
  successful shares the collection is the earlier collection followed by the delivered
  records in order of arrival: every operation adds one entry at the end, whatever its
  id, and the entries already there keep their positions and contents.
\<close>

theorem upserts_append:
  assumes "\<not> truthy (locationId e)"
    and "\<forall>ev \<in> set evs. upsert_record (username s) ev \<noteq> None"
  shows "locations (run e evs s)
           = locations s @ List.map_filter (upsert_record (username s)) evs
         \<and> length (locations (run e evs s)) = length (locations s) + length evs
         \<and> (\<forall>i < length (locations s). locations (run e evs s) ! i = locations s ! i)"
proof -
  have main: "locations (foldl (step e) s evs)
        = locations s @ List.map_filter (upsert_record (username s)) evs"
    using assms(2)
  proof (induction evs arbitrary: s)
    case Nil
    show ?case by (simp add: List.map_filter_simps)
  next
    case (Cons ev evs)
    from Cons.prems obtain r where r: "upsert_record (username s) ev = Some r"
      by auto
    note st = step_upsert [OF assms(1) r]
    have "\<forall>x \<in> set evs. upsert_record (username (step e s ev)) x \<noteq> None"
      using Cons.prems st by simp
    from Cons.IH [OF this] show ?case
      using st r by (simp add: List.map_filter_simps)
  qed
  have len: "length (List.map_filter (upsert_record (username s)) evs) = length evs"
    using assms(2) by (induction evs) (auto simp: List.map_filter_simps)
  show ?thesis
    using main len by (simp add: run_def nth_append)
qed

theorem upserts_append_witness:
  "\<not> truthy (locationId env_all)
   \<and> upsert_record (username loaded) (NewLocation loc_b) = Some loc_b
   \<and> upsert_record (username loaded) (ShareClick world_ok)
       = Some (created ''ann'' 48.85 2.35)
   \<and> locations (run env_all [NewLocation loc_b, ShareClick world_ok] loaded)
       = [loc_a, loc_b, created ''ann'' 48.85 2.35]"
proof -
  have a: "\<not> truthy (locationId env_all)"
    by (simp add: env_all_def)
  have u: "username loaded = ''ann''"
    by (simp add: loaded_def)
  have l: "locations loaded = [loc_a]"
    by (simp add: loaded_def fetchLocations_def fetch_try_def env_all_def world_ok_def)
  have b: "\<forall>ev \<in> set [NewLocation loc_b, ShareClick world_ok].
             upsert_record (username loaded) ev \<noteq> None"
    by (simp add: u world_ok_def created_def)
  show ?thesis
    using a upserts_append [OF a b]
    by (simp add: u l List.map_filter_simps world_ok_def created_def)
qed

text \<open>
  C1 as stated fails: two stream events carrying the same id leave two entries with
  that id; the first is not replaced.
\<close>

theorem upserts_duplicate_counterexample:
  "locations (run env_all [NewLocation loc_a, NewLocation loc_a2] initial_state)
     = [loc_a, loc_a2]
   \<and> map loc_id (locations (run env_all [NewLocation loc_a, NewLocation loc_a2] initial_state))
     = [''a'', ''a'']"
  by (simp add: run_def on_newLocation_def env_all_def initial_state_def loc_a_def loc_a2_def)

text \<open>
  C4. In single-location mode a \<^verbatim>\<open>newLocation\<close> event leaves the state, and so the
  collection, as it was, from every state.
\<close>

theorem single_mode_ignores_stream:
  assumes "truthy (locationId e)"
  shows "on_newLocation e loc s = s \<and> locations (step e s (NewLocation loc)) = locations s"
  using assms by (simp add: on_newLocation_def)

theorem single_mode_ignores_stream_witness:
  "truthy (locationId env_single)
   \<and> locations (step env_single (fetchLocations env_single world_ok initial_state)
        (NewLocation loc_b)) = [loc_a]"
proof -
  have a: "truthy (locationId env_single)"
    by (simp add: env_single_def)
  have l: "locations (fetchLocations env_single world_ok initial_state) = [loc_a]"
    by (simp add: fetchLocations_def fetch_try_def env_single_def world_ok_def loc_a_def)
  show ?thesis
    using a single_mode_ignores_stream
      [OF a, of loc_b "fetchLocations env_single world_ok initial_state"]
    by (simp only: l simp_thms)
qed

text \<open>
  C7. In all-locations mode a \<^verbatim>\<open>newLocation\<close> event puts its record at the end of the
  collection, behind the records already there; after a snapshot \<^verbatim>\<open>[a]\<close> and an event
  \<^verbatim>\<open>b\<close> the collection is \<^verbatim>\<open>[a, b]\<close>.
\<close>

theorem stream_appends:
  assumes "\<not> truthy (locationId e)"
  shows "locations (on_newLocation e loc s) = locations s @ [loc]
       \<and> (get_locations w = Body [a] \<longrightarrow>
            locations (run e [FetchDone w, NewLocation b] s) = [a, b])"
  using assms
  by (auto simp: on_newLocation_def run_def fetchLocations_def fetch_try_def truthy_iff
      split: option.splits list.splits)

theorem stream_appends_witness:
  "\<not> truthy (locationId env_all) \<and> get_locations world_ok = Body [loc_a]
   \<and> map loc_id (locations (run env_all [FetchDone world_ok, NewLocation loc_b] initial_state))
       = [''a'', ''b'']"
proof -
  have a: "\<not> truthy (locationId env_all)"
    by (simp add: env_all_def)
  have b: "get_locations world_ok = Body [loc_a]"
    by (simp add: world_ok_def)
  show ?thesis
    using a b stream_appends [OF a, of loc_b initial_state world_ok loc_a loc_b]
    by (simp add: loc_a_def loc_b_def)
qed

section \<open>Sharing\<close>

text \<open>
  C5. When a share goes through (a name is entered, the device gives a position, the
  backend answers with a record and no truthy \<^verbatim>\<open>error\<close>), the share address is the page
  origin followed by \<^verbatim>\<open>?locationId=\<close> and the record's id and the error message is
  cleared; in all-locations mode the record is added at the end of the collection, in
  single-location mode the collection stays as it was.
\<close>

theorem share_success:
  assumes "username s \<noteq> []"
    and "geolocation w = Some (Position la lo)"
    and "post_location w (username s) la lo = Body data"
    and "\<not> truthy (loc_error data)"
  shows "shareUrl (fst (shareLocation e w s)) = origin e @ ''?locationId='' @ loc_id data
       \<and> error (fst (shareLocation e w s)) = []
       \<and> (\<not> truthy (locationId e) \<longrightarrow>
            locations (fst (shareLocation e w s)) = locations s @ [data])
       \<and> (truthy (locationId e) \<longrightarrow> locations (fst (shareLocation e w s)) = locations s)"
  using assms
  by (auto simp: shareLocation_def share_then_def Let_def truthy_iff
      split: option.splits list.splits)

theorem share_success_witness:
  "username loaded \<noteq> []
   \<and> geolocation world_ok = Some (Position 48.85 2.35)
   \<and> post_location world_ok (username loaded) 48.85 2.35 = Body (created ''ann'' 48.85 2.35)
   \<and> \<not> truthy (loc_error (created ''ann'' 48.85 2.35))
   \<and> \<not> truthy (locationId env_all) \<and> truthy (locationId env_single)
   \<and> shareUrl (fst (shareLocation env_all world_ok loaded))
       = ''http://localhost:3000?locationId=xyz''
   \<and> locations (fst (shareLocation env_all world_ok loaded))
       = [loc_a, created ''ann'' 48.85 2.35]
   \<and> shareUrl (fst (shareLocation env_single world_ok loaded))
       = ''http://localhost:3000?locationId=xyz''
   \<and> locations (fst (shareLocation env_single world_ok loaded)) = [loc_a]"
proof -
  have u: "username loaded = ''ann''"
    by (simp add: loaded_def)
  have l: "locations loaded = [loc_a]"
    by (simp add: loaded_def fetchLocations_def fetch_try_def env_all_def world_ok_def)
  have a: "username loaded \<noteq> []"
    by (simp add: u)
  have b: "geolocation world_ok = Some (Position 48.85 2.35)"
    by (simp add: world_ok_def)
  have c: "post_location world_ok (username loaded) 48.85 2.35
             = Body (created ''ann'' 48.85 2.35)"
    by (simp add: world_ok_def u)
  have d: "\<not> truthy (loc_error (created ''ann'' 48.85 2.35))"
    by (simp add: created_def)
  have m: "\<not> truthy (locationId env_all)" "truthy (locationId env_single)"
    by (simp_all add: env_all_def env_single_def)
  have i: "\<And>u la lo. loc_id (created u la lo) = ''xyz''"
    by (simp add: created_def)
  have o: "origin env_all = ''http://localhost:3000''"
    "origin env_single = ''http://localhost:3000''"
    by (simp_all add: env_all_def env_single_def)
  show ?thesis
    using a b c d m share_success [OF a b c d, of env_all]
      share_success [OF a b c d, of env_single]
    by (simp add: l i o)
qed

text \<open>
  C8. With an empty name, or without the device's position capability, the share sets
  the matching error message at once; it neither asks the device for a position nor
  sends a request to the backend, and nothing else in the state changes.
\<close>

theorem share_preconditions:
  assumes "username s = [] \<or> geolocation w = None"
  shows "snd (shareLocation e w s) = []
       \<and> fst (shareLocation e w s) =
           s\<lparr>error := (if username s = [] then ''Please enter a username''
                        else ''Geolocation is not supported by this browser.'')\<rparr>"
  using assms by (auto simp: shareLocation_def)

theorem share_preconditions_witness:
  "username initial_state = [] \<and> geolocation world_no_geo = None \<and> username loaded \<noteq> []
   \<and> shareLocation env_all world_ok initial_state
       = (initial_state\<lparr>error := ''Please enter a username''\<rparr>, [])
   \<and> shareLocation env_all world_no_geo loaded
       = (loaded\<lparr>error := ''Geolocation is not supported by this browser.''\<rparr>, [])"
proof -
  have a: "username initial_state = []"
    by (simp add: initial_state_def)
  have b: "geolocation world_no_geo = None"
    by (simp add: world_no_geo_def)
  have u: "username loaded \<noteq> []"
    by (simp add: loaded_def)
  show ?thesis
    using a b u share_preconditions [OF disjI1 [OF a], of env_all world_ok]
      share_preconditions [OF disjI2 [OF b], of env_all loaded]
    by (simp add: prod_eq_iff)
qed

text \<open>
  C10. On every failing path of a share (empty name, no position capability, position
  capture failed, backend threw or rejected the promise, backend answered with a truthy
  \<^verbatim>\<open>error\<close>) the share address and the collection are as before: the state differs in the
  error message only, which is then non-empty.
\<close>

theorem share_failure_atomic:
  assumes "username s = []
         \<or> geolocation w = None
         \<or> geolocation w = Some (GeoError m)
         \<or> (geolocation w = Some (Position la lo)
              \<and> post_location w (username s) la lo = Throws)
         \<or> (geolocation w = Some (Position la lo)
              \<and> post_location w (username s) la lo = Body data \<and> truthy (loc_error data))"
  shows "shareUrl (fst (shareLocation e w s)) = shareUrl s
       \<and> locations (fst (shareLocation e w s)) = locations s
       \<and> fst (shareLocation e w s) = s\<lparr>error := error (fst (shareLocation e w s))\<rparr>
       \<and> error (fst (shareLocation e w s)) \<noteq> []"
  using assms
  by (auto simp: shareLocation_def share_then_def truthy_iff)

theorem share_failure_atomic_witness:
  "username initial_state = []
   \<and> locations (fst (shareLocation env_all world_ok initial_state)) = []
   \<and> geolocation world_no_geo = None
   \<and> locations (fst (shareLocation env_all world_no_geo loaded)) = [loc_a]
   \<and> geolocation world_geo_denied = Some (GeoError ''User denied Geolocation'')
   \<and> locations (fst (shareLocation env_all world_geo_denied loaded)) = [loc_a]
   \<and> post_location world_down (username loaded) 48.85 2.35 = Throws
   \<and> locations (fst (shareLocation env_all world_down loaded)) = [loc_a]
   \<and> post_location world_rejected (username loaded) 48.85 2.35
       = Body (error_body ''username is required'')
   \<and> locations (fst (shareLocation env_all world_rejected loaded)) = [loc_a]
   \<and> shareUrl (fst (shareLocation env_all world_rejected loaded)) = []"
proof -
  have l: "locations loaded = [loc_a]" "shareUrl loaded = []"
    by (simp_all add: loaded_def fetchLocations_def fetch_try_def env_all_def world_ok_def
        initial_state_def)
  have i: "locations initial_state = []"
    by (simp add: initial_state_def)
  have h1: "username initial_state = []"
    by (simp add: initial_state_def)
  have h2: "geolocation world_no_geo = None"
    by (simp add: world_no_geo_def)
  have h3: "geolocation world_geo_denied = Some (GeoError ''User denied Geolocation'')"
    by (simp add: world_geo_denied_def)
  have h4: "geolocation world_down = Some (Position 48.85 2.35)
            \<and> post_location world_down (username loaded) 48.85 2.35 = Throws"
    by (simp add: world_down_def)
  have h5: "geolocation world_rejected = Some (Position 48.85 2.35)
            \<and> post_location world_rejected (username loaded) 48.85 2.35
                = Body (error_body ''username is required'')
            \<and> truthy (loc_error (error_body ''username is required''))"
    by (simp add: world_rejected_def world_ok_def error_body_def)
  have g1: "username initial_state = [] \<or> geolocation world_ok = None
      \<or> geolocation world_ok = Some (GeoError [])
      \<or> (geolocation world_ok = Some (Position 0 0)
           \<and> post_location world_ok (username initial_state) 0 0 = Throws)
      \<or> (geolocation world_ok = Some (Position 0 0)
           \<and> post_location world_ok (username initial_state) 0 0 = Body loc_a
           \<and> truthy (loc_error loc_a))"
    using h1 by simp
  have g2: "username loaded = [] \<or> geolocation world_no_geo = None
      \<or> geolocation world_no_geo = Some (GeoError [])
      \<or> (geolocation world_no_geo = Some (Position 0 0)
           \<and> post_location world_no_geo (username loaded) 0 0 = Throws)
      \<or> (geolocation world_no_geo = Some (Position 0 0)
           \<and> post_location world_no_geo (username loaded) 0 0 = Body loc_a
           \<and> truthy (loc_error loc_a))"
    using h2 by simp
  have g3: "username loaded = [] \<or> geolocation world_geo_denied = None
      \<or> geolocation world_geo_denied = Some (GeoError ''User denied Geolocation'')
      \<or> (geolocation world_geo_denied = Some (Position 0 0)
           \<and> post_location world_geo_denied (username loaded) 0 0 = Throws)
      \<or> (geolocation world_geo_denied = Some (Position 0 0)
           \<and> post_location world_geo_denied (username loaded) 0 0 = Body loc_a
           \<and> truthy (loc_error loc_a))"
    using h3 by simp
  have g4: "username loaded = [] \<or> geolocation world_down = None
      \<or> geolocation world_down = Some (GeoError [])
      \<or> (geolocation world_down = Some (Position 48.85 2.35)
           \<and> post_location world_down (username loaded) 48.85 2.35 = Throws)
      \<or> (geolocation world_down = Some (Position 48.85 2.35)
           \<and> post_location world_down (username loaded) 48.85 2.35 = Body loc_a
           \<and> truthy (loc_error loc_a))"
    using h4 by simp
  have g5: "username loaded = [] \<or> geolocation world_rejected = None
      \<or> geolocation world_rejected = Some (GeoError [])
      \<or> (geolocation world_rejected = Some (Position 48.85 2.35)
           \<and> post_location world_rejected (username loaded) 48.85 2.35 = Throws)
      \<or> (geolocation world_rejected = Some (Position 48.85 2.35)
           \<and> post_location world_rejected (username loaded) 48.85 2.35
               = Body (error_body ''username is required'')
           \<and> truthy (loc_error (error_body ''username is required'')))"
    using h5 by simp
  show ?thesis
    using h1 h2 h3 h4 h5
      share_failure_atomic [OF g1, of env_all] share_failure_atomic [OF g2, of env_all]
      share_failure_atomic [OF g3, of env_all] share_failure_atomic [OF g4, of env_all]
      share_failure_atomic [OF g5, of env_all]
    by (simp add: l i)
qed

section \<open>Viewport and rendering\<close>

text \<open>
  C6. The map centre is the fixed default (51.505, -0.09) for an empty collection and
  the coordinates of the last entry of a non-empty one; it does not depend on the
  timestamps of the entries.
\<close>

theorem mapCenter_last:
  "mapCenter [] = (51.505, - 0.09)
   \<and> (locs \<noteq> [] \<longrightarrow> mapCenter locs = (latitude (last locs), longitude (last locs)))
   \<and> mapCenter (map (timestamp_update f) locs) = mapCenter locs"
  by (auto simp: mapCenter_def last_conv_nth)

theorem mapCenter_last_witness:
  "[loc_a, loc_b] \<noteq> [] \<and> mapCenter [loc_a, loc_b] = (3, 4)
   \<and> mapCenter [loc_b, loc_a] = (1, 2)
   \<and> mapCenter (map (timestamp_update (\<lambda>t. [])) [loc_a, loc_b]) = (3, 4)"
  using mapCenter_last [of "[loc_a, loc_b]" "\<lambda>t. []"] mapCenter_last [of "[loc_b, loc_a]"]
  by (simp add: loc_a_def loc_b_def)

text \<open>
  C9 (as the code has it). When a connection error arrives after the snapshot has been
  loaded, the collection and every other part of the state except the error message are
  kept, and the rendered output is the error message alone: the map and the list are
  not rendered while the error message is non-empty.
\<close>

theorem connect_error_keeps_state:
  assumes "\<not> isLoading s"
  shows "locations (on_connect_error s) = locations s
       \<and> on_connect_error s = s\<lparr>error := connect_error_msg\<rparr>
       \<and> render e (on_connect_error s) = ErrorView connect_error_msg"
  using assms by (simp add: on_connect_error_def render_def connect_error_msg_def)

theorem connect_error_keeps_state_witness:
  "\<not> isLoading loaded \<and> locations (on_connect_error loaded) = [loc_a]
   \<and> render env_all (on_connect_error loaded) = ErrorView connect_error_msg"
proof -
  have a: "\<not> isLoading loaded"
    by (simp add: loaded_def fetchLocations_def)
  have l: "locations loaded = [loc_a]"
    by (simp add: loaded_def fetchLocations_def fetch_try_def env_all_def world_ok_def)
  from connect_error_keeps_state [OF a, of env_all]
  have "locations (on_connect_error loaded) = locations loaded"
    and "render env_all (on_connect_error loaded) = ErrorView connect_error_msg"
    by blast+
  then show ?thesis
    using a by (simp add: l)
qed

text \<open>
  C9 as stated fails: with the snapshot \<^verbatim>\<open>[a]\<close> loaded the page shows the map and the
  list; after a connection error the output is the error message only.
\<close>

theorem connect_error_hides_snapshot_counterexample:
  "render env_all loaded =
     PageView \<lparr>input_group = Some ''ann'', share_box = None, map_center = (1, 2),
               map_markers = [\<lparr>marker_key = ''a'', marker_position = (1, 2),
                                marker_popup = ''ann''\<rparr>],
               list_items = [loc_a]\<rparr>
   \<and> render env_all (on_connect_error loaded) = ErrorView connect_error_msg"
  by (simp add: loaded_def fetchLocations_def fetch_try_def env_all_def world_ok_def
      initial_state_def on_connect_error_def render_def connect_error_msg_def
      mapCenter_def to_marker_def loc_a_def)

end
